theory Spec2Isabelle
  imports Complex_Main "HOL-Library.Word"
begin

section \<open>JavaScript strings\<close>

text \<open>
  A JavaScript string is a sequence of UTF-16 code units; the regular expressions of the
  program carry no \<open>u\<close> flag, so they work on code units as well. ASCII literals of the
  source are written \<open>js ''...''\<close>.
\<close>

type_synonym code_unit = "16 word"
type_synonym jsstring = "code_unit list"

definition js :: "string \<Rightarrow> jsstring" where
  "js s = map of_char s"

definition LF :: code_unit where
  "LF = 0x0A"

definition DQUOTE :: code_unit where
  "DQUOTE = 0x22"

text \<open>Truthiness of a string value: only the empty string is falsy.\<close>

definition truthy :: "jsstring \<Rightarrow> bool" where
  "truthy s \<longleftrightarrow> s \<noteq> []"

text \<open>
  Truthiness of an optional string (\<open>string | undefined\<close>): \<open>undefined\<close> and the
  empty string are falsy.
\<close>

definition truthy_opt :: "jsstring option \<Rightarrow> bool" where
  "truthy_opt v = (case v of None \<Rightarrow> False | Some s \<Rightarrow> truthy s)"

text \<open>\<open>v || d\<close> for an optional string \<open>v\<close> and a string \<open>d\<close>.\<close>

definition or_default :: "jsstring option \<Rightarrow> jsstring \<Rightarrow> jsstring" where
  "or_default v d = (case v of None \<Rightarrow> d | Some s \<Rightarrow> if truthy s then s else d)"

text \<open>
  The code units matched by \<open>\s\<close> in a regular expression and removed by
  \<open>String.prototype.trim\<close>: ECMAScript WhiteSpace and LineTerminator.
\<close>

definition isspace :: "code_unit \<Rightarrow> bool" where
  "isspace c \<longleftrightarrow>
     c = 0x09 \<or> c = 0x0A \<or> c = 0x0B \<or> c = 0x0C \<or> c = 0x0D \<or> c = 0x20 \<or> c = 0xA0 \<or>
     c = 0x1680 \<or> (0x2000 \<le> c \<and> c \<le> 0x200A) \<or> c = 0x2028 \<or> c = 0x2029 \<or>
     c = 0x202F \<or> c = 0x205F \<or> c = 0x3000 \<or> c = 0xFEFF"

definition trim :: "jsstring \<Rightarrow> jsstring" where
  "trim s = rev (dropWhile isspace (rev (dropWhile isspace s)))"

definition startsWith :: "jsstring \<Rightarrow> jsstring \<Rightarrow> bool" where
  "startsWith p s \<longleftrightarrow> take (length p) s = p"

definition endsWith :: "jsstring \<Rightarrow> jsstring \<Rightarrow> bool" where
  "endsWith p s \<longleftrightarrow> length p \<le> length s \<and> drop (length s - length p) s = p"


section \<open>Response cleanup\<close>

text \<open>
  Both \<open>bringToLife\<close> and \<open>refineApp\<close> post-process the response text with
  \<^verbatim>\<open>text.replace(/^```html\s*/, '').replace(/^```\s*/, '').replace(/```$/, '')\<close>.
  None of the three expressions is global or multi-line: \<open>^\<close> is the start of the text,
  \<open>$\<close> its very end, \<open>\s*\<close> is greedy, and at most one match is replaced.
\<close>

definition FENCE :: jsstring where
  "FENCE = js ''```''"

definition FENCE_HTML :: jsstring where
  "FENCE_HTML = js ''```html''"

definition replace_fence_html :: "jsstring \<Rightarrow> jsstring" where
  "replace_fence_html s =
     (if startsWith FENCE_HTML s then dropWhile isspace (drop (length FENCE_HTML) s) else s)"

definition replace_fence_open :: "jsstring \<Rightarrow> jsstring" where
  "replace_fence_open s =
     (if startsWith FENCE s then dropWhile isspace (drop (length FENCE) s) else s)"

definition replace_fence_close :: "jsstring \<Rightarrow> jsstring" where
  "replace_fence_close s =
     (if endsWith FENCE s then take (length s - length FENCE) s else s)"

definition cleanup :: "jsstring \<Rightarrow> jsstring" where
  "cleanup s = replace_fence_close (replace_fence_open (replace_fence_html s))"

text \<open>Text is clean when it neither begins nor ends with a fence marker.\<close>

definition clean :: "jsstring \<Rightarrow> bool" where
  "clean s \<longleftrightarrow> \<not> startsWith FENCE s \<and> \<not> endsWith FENCE s"


text \<open>
  The code units that the cleanup can remove: those of the two openers and whitespace.
\<close>

definition fence_unit :: "code_unit \<Rightarrow> bool" where
  "fence_unit c \<longleftrightarrow> c = 0x60 \<or> c = 0x68 \<or> c = 0x74 \<or> c = 0x6D \<or> c = 0x6C \<or> isspace c"


section \<open>The model gateway\<close>

text \<open>
  A request handed to \<open>ai.models.generateContent\<close>: the model name, the ordered parts of
  \<open>contents\<close>, and the configuration. The three system instructions are long constant
  texts of the source; a request records which of them it carries.
\<close>

datatype part = Text jsstring | InlineData jsstring jsstring

datatype system_instruction =
  SYSTEM_INSTRUCTION | REFINE_SYSTEM_INSTRUCTION | ANALYSIS_SYSTEM_INSTRUCTION

record request =
  model :: jsstring
  parts :: "part list"
  systemInstruction :: system_instruction
  thinkingBudget :: nat
  temperature :: "rat option"

text \<open>
  The remote call is a parameter of the model: it either throws (\<open>Inl\<close>, with the thrown
  value) or returns a response, of which the program reads only \<open>response.text\<close>, a
  \<open>string | undefined\<close>. Logging with \<open>console.error\<close> is not modelled.
\<close>

type_synonym 'e generateContent = "request \<Rightarrow> 'e + jsstring option"

definition GEMINI_MODEL :: jsstring where
  "GEMINI_MODEL = js ''gemini-3-pro-preview''"

subsection \<open>bringToLife\<close>

definition defaultFilePrompt :: jsstring where
  "defaultFilePrompt = js ''Analyze this image/document. Detect what functionality is implied. If it is a real-world object (like a desk), gamify it (e.g., a cleanup game). Build a fully interactive web app. IMPORTANT: Do NOT use external image URLs. Recreate the visuals using CSS, SVGs, or Emojis.''"

definition USER_REQUEST_CONTEXT :: jsstring where
  "USER_REQUEST_CONTEXT = [LF, LF] @ js ''USER REQUEST / CONTEXT: ''"

definition DEMO_PROMPT :: jsstring where
  "DEMO_PROMPT = js ''Create a demo app that shows off your capabilities.''"

definition textPart :: "jsstring \<Rightarrow> jsstring option \<Rightarrow> jsstring" where
  "textPart prompt fileBase64 =
     (if truthy_opt fileBase64
      then defaultFilePrompt @
           (if truthy prompt \<and> truthy (trim prompt) then USER_REQUEST_CONTEXT @ prompt else [])
      else (if truthy prompt then prompt else DEMO_PROMPT))"

definition generate_parts :: "jsstring \<Rightarrow> jsstring option \<Rightarrow> jsstring option \<Rightarrow> part list" where
  "generate_parts prompt fileBase64 mimeType =
     Text (textPart prompt fileBase64) #
     (case fileBase64 of
        None \<Rightarrow> []
      | Some d \<Rightarrow>
          (case mimeType of
             None \<Rightarrow> []
           | Some m \<Rightarrow> if truthy d \<and> truthy m then [InlineData d m] else []))"

definition generate_request :: "jsstring \<Rightarrow> jsstring option \<Rightarrow> jsstring option \<Rightarrow> request" where
  "generate_request prompt fileBase64 mimeType =
     \<lparr>model = GEMINI_MODEL,
      parts = generate_parts prompt fileBase64 mimeType,
      systemInstruction = SYSTEM_INSTRUCTION,
      thinkingBudget = 32768,
      temperature = Some (1 / 2)\<rparr>"

definition FAILED_PLACEHOLDER :: jsstring where
  "FAILED_PLACEHOLDER = js ''<!-- Failed to generate content -->''"

definition bringToLife ::
  "'e generateContent \<Rightarrow> jsstring \<Rightarrow> jsstring option \<Rightarrow> jsstring option \<Rightarrow> 'e + jsstring" where
  "bringToLife gc prompt fileBase64 mimeType =
     (case gc (generate_request prompt fileBase64 mimeType) of
        Inl error \<Rightarrow> Inl error
      | Inr text \<Rightarrow> Inr (cleanup (or_default text FAILED_PLACEHOLDER)))"

subsection \<open>refineApp\<close>

definition CURRENT_CODE_PREAMBLE :: jsstring where
  "CURRENT_CODE_PREAMBLE = js ''Here is the current existing code:''"

definition wrap_instruction :: "jsstring \<Rightarrow> jsstring" where
  "wrap_instruction instruction =
     [LF, LF] @ js ''USER INSTRUCTION: '' @ instruction @ [LF, LF] @
     js ''Return the full updated HTML file.''"

definition refine_request :: "jsstring \<Rightarrow> jsstring \<Rightarrow> request" where
  "refine_request currentHtml instruction =
     \<lparr>model = GEMINI_MODEL,
      parts = [Text CURRENT_CODE_PREAMBLE, Text currentHtml, Text (wrap_instruction instruction)],
      systemInstruction = REFINE_SYSTEM_INSTRUCTION,
      thinkingBudget = 8192,
      temperature = Some (3 / 10)\<rparr>"

definition refineApp :: "'e generateContent \<Rightarrow> jsstring \<Rightarrow> jsstring \<Rightarrow> 'e + jsstring" where
  "refineApp gc currentHtml instruction =
     (case gc (refine_request currentHtml instruction) of
        Inl error \<Rightarrow> Inl error
      | Inr text \<Rightarrow> Inr (cleanup (or_default text currentHtml)))"

subsection \<open>analyzeCode\<close>

definition ANALYZE_PREAMBLE :: jsstring where
  "ANALYZE_PREAMBLE = js ''Please analyze this code and suggest improvements:''"

definition NO_ANALYSIS :: jsstring where
  "NO_ANALYSIS = js ''No analysis generated.''"

definition ANALYSIS_FAILED :: jsstring where
  "ANALYSIS_FAILED = js ''Failed to analyze code. Please try again.''"

definition analyze_request :: "jsstring \<Rightarrow> request" where
  "analyze_request code =
     \<lparr>model = GEMINI_MODEL,
      parts = [Text ANALYZE_PREAMBLE, Text code],
      systemInstruction = ANALYSIS_SYSTEM_INSTRUCTION,
      thinkingBudget = 32768,
      temperature = None\<rparr>"

text \<open>
  The result type keeps a place for a thrown value, so that "never raises" is a statement
  about the function and not about its type; the \<open>catch\<close> branch returns a string.
\<close>

definition analyzeCode :: "'e generateContent \<Rightarrow> jsstring \<Rightarrow> 'e + jsstring" where
  "analyzeCode gc code =
     (case gc (analyze_request code) of
        Inl error \<Rightarrow> Inr ANALYSIS_FAILED
      | Inr text \<Rightarrow> Inr (or_default text NO_ANALYSIS))"


subsection \<open>Sample remote models\<close>

text \<open>
  Three remote models used to run the functions on concrete inputs: one answers an analysis
  request with a line about the code it was sent, one answers with the text of the first
  part of the request, one tells whether the request holds one part or more.
\<close>

definition answering :: "unit generateContent" where
  "answering r =
     (case parts r of
        [Text p, Text code] \<Rightarrow> Inr (Some (js ''Review of '' @ code))
      | _ \<Rightarrow> Inr None)"


definition count_parts :: "unit generateContent" where
  "count_parts r =
     Inr (Some (if length (parts r) = 1 then js ''text only'' else js ''text and attachment''))"


section \<open>Creations and their export\<close>

text \<open>
  Modelled from the spec: the interface \<open>Creation\<close> (imported from \<open>./CreationHistory\<close>) is
  not among the sources. The spec gives a Creation a \<open>name\<close>, its \<open>html\<close> and an optional
  \<open>originalImage\<close>; an absent optional property reads as \<open>undefined\<close>, which is how the
  preview tests it (\<open>creation?.originalImage\<close>).
\<close>

record Creation =
  name :: jsstring
  html :: jsstring
  originalImage :: "jsstring option"

subsection \<open>JSON.stringify\<close>

definition BACKSLASH :: code_unit where
  "BACKSLASH = 0x5C"

definition hex_digit :: "code_unit \<Rightarrow> code_unit" where
  "hex_digit d = (if d < 10 then 0x30 + d else 0x61 + (d - 10))"

definition UnicodeEscape :: "code_unit \<Rightarrow> jsstring" where
  "UnicodeEscape c =
     [BACKSLASH, 0x75,
      hex_digit (drop_bit 12 c),
      hex_digit (take_bit 4 (drop_bit 8 c)),
      hex_digit (take_bit 4 (drop_bit 4 c)),
      hex_digit (take_bit 4 c)]"

definition is_leading_surrogate :: "code_unit \<Rightarrow> bool" where
  "is_leading_surrogate c \<longleftrightarrow> 0xD800 \<le> c \<and> c \<le> 0xDBFF"

definition is_trailing_surrogate :: "code_unit \<Rightarrow> bool" where
  "is_trailing_surrogate c \<longleftrightarrow> 0xDC00 \<le> c \<and> c \<le> 0xDFFF"

text \<open>One code point that is a single code unit (a lone surrogate included).\<close>

definition quote_unit :: "code_unit \<Rightarrow> jsstring" where
  "quote_unit c =
     (if c = 0x08 then [BACKSLASH, 0x62]
      else if c = 0x09 then [BACKSLASH, 0x74]
      else if c = 0x0A then [BACKSLASH, 0x6E]
      else if c = 0x0C then [BACKSLASH, 0x66]
      else if c = 0x0D then [BACKSLASH, 0x72]
      else if c = 0x22 then [BACKSLASH, 0x22]
      else if c = 0x5C then [BACKSLASH, 0x5C]
      else if c < 0x20 \<or> is_leading_surrogate c \<or> is_trailing_surrogate c then UnicodeEscape c
      else [c])"

fun quote_units :: "jsstring \<Rightarrow> jsstring" where
  "quote_units [] = []"
| "quote_units [c] = quote_unit c"
| "quote_units (c # d # cs) =
     (if is_leading_surrogate c \<and> is_trailing_surrogate d then c # d # quote_units cs
      else quote_unit c @ quote_units (d # cs))"

definition QuoteJSONString :: "jsstring \<Rightarrow> jsstring" where
  "QuoteJSONString s = [DQUOTE] @ quote_units s @ [DQUOTE]"

text \<open>
  Code units that \<open>QuoteJSONString\<close> copies unchanged: no control character, quote,
  backslash or surrogate.
\<close>

definition plain :: "code_unit \<Rightarrow> bool" where
  "plain c \<longleftrightarrow>
     0x20 \<le> c \<and> c \<noteq> 0x22 \<and> c \<noteq> 0x5C \<and> \<not> is_leading_surrogate c \<and> \<not> is_trailing_surrogate c"

fun join :: "jsstring \<Rightarrow> jsstring list \<Rightarrow> jsstring" where
  "join sep [] = []"
| "join sep [x] = x"
| "join sep (x # y # ys) = x @ sep @ join sep (y # ys)"

text \<open>
  The own properties of a Creation whose value is not \<open>undefined\<close>, in order:
  \<open>JSON.stringify\<close> leaves a property out when its value is \<open>undefined\<close>.
\<close>

definition creation_properties :: "Creation \<Rightarrow> (jsstring \<times> jsstring) list" where
  "creation_properties c =
     [(js ''name'', name c), (js ''html'', html c)] @
     (case originalImage c of None \<Rightarrow> [] | Some i \<Rightarrow> [(js ''originalImage'', i)])"

text \<open>
  \<open>JSON.stringify(creation, null, space)\<close> for a number \<open>space\<close>: the gap is that many
  spaces, ten at most; with an empty gap the members are packed.
\<close>

definition member :: "jsstring \<Rightarrow> jsstring \<times> jsstring \<Rightarrow> jsstring" where
  "member gap kv =
     QuoteJSONString (fst kv) @ js '':'' @ (if gap = [] then [] else js '' '') @
     QuoteJSONString (snd kv)"

definition JSON_stringify :: "Creation \<Rightarrow> nat \<Rightarrow> jsstring" where
  "JSON_stringify c space =
     (let gap = replicate (min space 10) 0x20;
          partial = map (member gap) (creation_properties c)
      in if partial = [] then js ''{}''
         else if gap = [] then js ''{'' @ join (js '','') partial @ js ''}''
         else js ''{'' @ [LF] @ gap @ join (js '','' @ [LF] @ gap) partial @ [LF] @ js ''}'')"

subsection \<open>handleExport\<close>

definition is_alnum :: "code_unit \<Rightarrow> bool" where
  "is_alnum c \<longleftrightarrow> (0x30 \<le> c \<and> c \<le> 0x39) \<or> (0x41 \<le> c \<and> c \<le> 0x5A) \<or> (0x61 \<le> c \<and> c \<le> 0x7A)"

text \<open>\<open>.replace(/[^a-z0-9]/gi, '_')\<close>: global, case-insensitive, on code units.\<close>

definition replace_non_alnum :: "jsstring \<Rightarrow> jsstring" where
  "replace_non_alnum s = map (\<lambda>c. if is_alnum c then c else 0x5F) s"

text \<open>
  \<open>toLowerCase\<close> on the result of that replacement, which holds ASCII letters, digits and
  underscores only: the letters A to Z are mapped to a to z.
\<close>

definition toLowerCase :: "jsstring \<Rightarrow> jsstring" where
  "toLowerCase s = map (\<lambda>c. if 0x41 \<le> c \<and> c \<le> 0x5A then c + 0x20 else c) s"

record download =
  blob :: jsstring
  blob_type :: jsstring
  file_name :: jsstring

definition handleExport :: "Creation option \<Rightarrow> download option" where
  "handleExport creation =
     (case creation of
        None \<Rightarrow> None
      | Some c \<Rightarrow>
          Some \<lparr>blob = JSON_stringify c 2,
                blob_type = js ''application/json'',
                file_name = toLowerCase (replace_non_alnum (name c)) @ js ''_artifact.json''\<rparr>)"


section \<open>The preview component\<close>

text \<open>
  The state of \<open>LivePreview\<close>: its \<open>creation\<close> property and the state variables that the
  analysis and the creation-change effect touch. Two further components stand for the
  world outside the component: \<open>calls\<close> is the trace of the requests handed to the remote
  model, oldest first, and \<open>in_flight\<close> holds the code of every \<open>analyzeCode\<close> call that
  \<open>handleToggleAnalysis\<close> is still awaiting.
\<close>

record preview =
  creation :: "Creation option"
  showSplitView :: bool
  isAnalyzing :: bool
  analysisResult :: "jsstring option"
  showAnalysis :: bool
  refinementPrompt :: jsstring
  isRefining :: bool
  calls :: "request list"
  in_flight :: "jsstring list"

text \<open>The state variables as \<open>useState\<close> initialises them, with nothing sent yet.\<close>

definition initial_preview :: preview where
  "initial_preview =
     \<lparr>creation = None, showSplitView = False, isAnalyzing = False, analysisResult = None,
      showAnalysis = False, refinementPrompt = [], isRefining = False, calls = [],
      in_flight = []\<rparr>"

text \<open>The effect that runs when the \<open>creation\<close> property changes.\<close>

definition creation_changed :: "Creation option \<Rightarrow> preview \<Rightarrow> preview" where
  "creation_changed c st =
     st\<lparr>creation := c,
        showSplitView := (case c of None \<Rightarrow> False | Some x \<Rightarrow> truthy_opt (originalImage x)),
        analysisResult := None,
        showAnalysis := False,
        isAnalyzing := False,
        refinementPrompt := [],
        isRefining := False\<rparr>"

definition RETRIEVE_FAILED :: jsstring where
  "RETRIEVE_FAILED = js ''Failed to retrieve analysis. Please try again.''"

text \<open>
  \<open>handleToggleAnalysis\<close> is an asynchronous function. Its first part runs when the button
  is clicked, up to \<open>await analyzeCode(creation.html)\<close>, where the request leaves.
\<close>

definition handleToggleAnalysis :: "preview \<Rightarrow> preview" where
  "handleToggleAnalysis st =
     (case creation st of
        None \<Rightarrow> st
      | Some c \<Rightarrow>
          if showAnalysis st then st\<lparr>showAnalysis := False\<rparr>
          else if \<not> truthy_opt (analysisResult st) \<and> \<not> isAnalyzing st then
            st\<lparr>showAnalysis := True, isAnalyzing := True,
               calls := calls st @ [analyze_request (html c)],
               in_flight := in_flight st @ [html c]\<rparr>
          else st\<lparr>showAnalysis := True\<rparr>)"

text \<open>
  Its second part runs when the awaited call settles: the result is stored, or the
  message of the \<open>catch\<close> branch, and \<open>finally\<close> clears \<open>isAnalyzing\<close>. The calls in flight
  are taken to settle oldest first.
\<close>

definition analysis_settled :: "'e generateContent \<Rightarrow> preview \<Rightarrow> preview" where
  "analysis_settled gc st =
     (case in_flight st of
        [] \<Rightarrow> st
      | code # rest \<Rightarrow>
          (case analyzeCode gc code of
             Inr result \<Rightarrow>
               st\<lparr>analysisResult := Some result, isAnalyzing := False, in_flight := rest\<rparr>
           | Inl e \<Rightarrow>
               st\<lparr>analysisResult := Some RETRIEVE_FAILED, isAnalyzing := False,
                  in_flight := rest\<rparr>))"

text \<open>What happens to the component: a click on the analysis button, or a call settling.\<close>

datatype event = Toggle | Settled

fun step :: "'e generateContent \<Rightarrow> event \<Rightarrow> preview \<Rightarrow> preview" where
  "step gc Toggle st = handleToggleAnalysis st"
| "step gc Settled st = analysis_settled gc st"

fun run :: "'e generateContent \<Rightarrow> event list \<Rightarrow> preview \<Rightarrow> preview" where
  "run gc [] st = st"
| "run gc (ev # evs) st = run gc evs (step gc ev st)"

text \<open>The report that one analysis of a Creation produces.\<close>

definition report :: "'e generateContent \<Rightarrow> Creation \<Rightarrow> jsstring" where
  "report gc c = (case analyzeCode gc (html c) of Inr result \<Rightarrow> result | Inl e \<Rightarrow> RETRIEVE_FAILED)"

text \<open>
  The three phases of the analysis of one Creation: not requested yet, requested and in
  flight, and held. \<open>sent\<close> is the trace before the request.
\<close>

definition fresh :: "Creation \<Rightarrow> request list \<Rightarrow> preview \<Rightarrow> bool" where
  "fresh c sent st \<longleftrightarrow>
     creation st = Some c \<and> analysisResult st = None \<and> \<not> isAnalyzing st \<and>
     \<not> showAnalysis st \<and> in_flight st = [] \<and> calls st = sent"

definition awaiting :: "Creation \<Rightarrow> request list \<Rightarrow> preview \<Rightarrow> bool" where
  "awaiting c sent st \<longleftrightarrow>
     creation st = Some c \<and> analysisResult st = None \<and> isAnalyzing st \<and>
     in_flight st = [html c] \<and> calls st = sent @ [analyze_request (html c)]"

definition memoized :: "Creation \<Rightarrow> jsstring \<Rightarrow> request list \<Rightarrow> preview \<Rightarrow> bool" where
  "memoized c r sent st \<longleftrightarrow>
     creation st = Some c \<and> analysisResult st = Some r \<and> r \<noteq> [] \<and> \<not> isAnalyzing st \<and>
     in_flight st = [] \<and> calls st = sent @ [analyze_request (html c)]"


section \<open>Facts about the cleanup\<close>

lemma FENCE_units: "FENCE = [0x60, 0x60, 0x60]"
  by (simp add: FENCE_def js_def)

lemma FENCE_HTML_units: "FENCE_HTML = [0x60, 0x60, 0x60, 0x68, 0x74, 0x6D, 0x6C]"
  by (simp add: FENCE_HTML_def js_def)

lemma backtick_not_space: "\<not> isspace 0x60"
  by (simp add: isspace_def)

lemma startsWith_iff: "startsWith p s \<longleftrightarrow> (\<exists>r. s = p @ r)"
  unfolding startsWith_def by (metis append_take_drop_id append_eq_conv_conj)

lemma startsWith_html_fence: "startsWith FENCE_HTML s \<Longrightarrow> startsWith FENCE s"
proof -
  assume "startsWith FENCE_HTML s"
  then obtain r where "s = FENCE_HTML @ r"
    using startsWith_iff by blast
  then have "s = FENCE @ ([0x68, 0x74, 0x6D, 0x6C] @ r)"
    by (simp add: FENCE_units FENCE_HTML_units)
  then show ?thesis
    using startsWith_iff by blast
qed

lemma cleanup_clean: "clean s \<Longrightarrow> cleanup s = s"
proof -
  assume c: "clean s"
  then have "\<not> startsWith FENCE_HTML s"
    using startsWith_html_fence by (auto simp: clean_def)
  with c show ?thesis
    by (simp add: cleanup_def replace_fence_html_def replace_fence_open_def
        replace_fence_close_def clean_def)
qed

lemma dropWhile_space_fence: "dropWhile isspace (t @ FENCE) = dropWhile isspace t @ FENCE"
  by (induction t) (simp_all add: FENCE_units backtick_not_space)

lemma replace_fence_html_wrapped:
  "replace_fence_html (FENCE_HTML @ t @ FENCE) = dropWhile isspace t @ FENCE"
  by (simp add: replace_fence_html_def startsWith_def dropWhile_space_fence)

lemma strip_after_html:
  assumes "\<not> startsWith FENCE u"
  shows "replace_fence_close (replace_fence_open (u @ FENCE)) = u"
proof (cases u)
  case Nil
  then show ?thesis
    by (simp add: replace_fence_close_def replace_fence_open_def startsWith_def endsWith_def
        FENCE_units)
next
  case u1: (Cons a u')
  show ?thesis
  proof (cases u')
    case Nil
    with u1 show ?thesis
      by (simp add: replace_fence_close_def replace_fence_open_def startsWith_def endsWith_def
          FENCE_units backtick_not_space)
  next
    case u2: (Cons b u'')
    show ?thesis
    proof (cases u'')
      case Nil
      with u1 u2 show ?thesis
        by (simp add: replace_fence_close_def replace_fence_open_def startsWith_def endsWith_def
            FENCE_units backtick_not_space)
    next
      case (Cons c r)
      with u1 u2 assms have ns: "\<not> startsWith FENCE (u @ FENCE)"
        by (simp add: startsWith_def FENCE_units)
      have "endsWith FENCE (u @ FENCE)"
        by (simp add: endsWith_def)
      with ns show ?thesis
        by (simp add: replace_fence_close_def replace_fence_open_def)
    qed
  qed
qed


lemma keeps_dropWhile: "c \<in> set r \<Longrightarrow> \<not> P c \<Longrightarrow> c \<in> set (dropWhile P r)"
  by (induction r) auto

lemma keeps_html:
  assumes "c \<in> set s" and "\<not> fence_unit c"
  shows "c \<in> set (replace_fence_html s)"
proof (cases "startsWith FENCE_HTML s")
  case False
  with assms(1) show ?thesis by (simp add: replace_fence_html_def)
next
  case True
  then obtain r where s: "s = FENCE_HTML @ r"
    using startsWith_iff by blast
  from assms(2) have "c \<notin> set FENCE_HTML" "\<not> isspace c"
    by (auto simp: fence_unit_def FENCE_HTML_units)
  with assms(1) s have "c \<in> set (dropWhile isspace r)"
    by (auto intro: keeps_dropWhile)
  with s show ?thesis
    by (simp add: replace_fence_html_def startsWith_def)
qed

lemma keeps_open:
  assumes "c \<in> set s" and "\<not> fence_unit c"
  shows "c \<in> set (replace_fence_open s)"
proof (cases "startsWith FENCE s")
  case False
  with assms(1) show ?thesis by (simp add: replace_fence_open_def)
next
  case True
  then obtain r where s: "s = FENCE @ r"
    using startsWith_iff by blast
  from assms(2) have "c \<notin> set FENCE" "\<not> isspace c"
    by (auto simp: fence_unit_def FENCE_units)
  with assms(1) s have "c \<in> set (dropWhile isspace r)"
    by (auto intro: keeps_dropWhile)
  with s show ?thesis
    by (simp add: replace_fence_open_def startsWith_def)
qed

lemma keeps_close:
  assumes "c \<in> set s" and "\<not> fence_unit c"
  shows "c \<in> set (replace_fence_close s)"
proof (cases "endsWith FENCE s")
  case False
  with assms(1) show ?thesis by (simp add: replace_fence_close_def)
next
  case True
  then have "s = take (length s - length FENCE) s @ FENCE"
    by (metis endsWith_def append_take_drop_id)
  moreover from assms(2) have "c \<notin> set FENCE"
    by (auto simp: fence_unit_def FENCE_units)
  ultimately have "c \<in> set (take (length s - length FENCE) s)"
    using assms(1) by (metis Un_iff set_append)
  with True show ?thesis
    by (simp add: replace_fence_close_def)
qed

lemma cleanup_keeps: "c \<in> set s \<Longrightarrow> \<not> fence_unit c \<Longrightarrow> c \<in> set (cleanup s)"
  by (simp add: cleanup_def keeps_html keeps_open keeps_close)


section \<open>Facts about the gateway\<close>

lemma or_default_nonempty: "d \<noteq> [] \<Longrightarrow> or_default v d \<noteq> []"
  by (simp add: or_default_def truthy_def split: option.splits)

lemma or_default_falsy: "\<not> truthy_opt v \<Longrightarrow> or_default v d = d"
  by (simp add: or_default_def truthy_opt_def split: option.splits)

lemma or_default_truthy: "s \<noteq> [] \<Longrightarrow> or_default (Some s) d = s"
  by (simp add: or_default_def truthy_def)

lemma NO_ANALYSIS_nonempty: "NO_ANALYSIS \<noteq> []"
  by (simp add: NO_ANALYSIS_def js_def)

lemma ANALYSIS_FAILED_nonempty: "ANALYSIS_FAILED \<noteq> []"
  by (simp add: ANALYSIS_FAILED_def js_def)

lemma FAILED_PLACEHOLDER_clean: "clean FAILED_PLACEHOLDER"
  by (simp add: clean_def startsWith_def endsWith_def FENCE_units FAILED_PLACEHOLDER_def js_def)

lemma FAILED_PLACEHOLDER_nonempty: "FAILED_PLACEHOLDER \<noteq> []"
  by (simp add: FAILED_PLACEHOLDER_def js_def)

lemma analyzeCode_returns: "\<exists>s. analyzeCode gc code = Inr s \<and> s \<noteq> []"
  by (auto simp: analyzeCode_def or_default_nonempty NO_ANALYSIS_nonempty
      ANALYSIS_FAILED_nonempty split: sum.splits)

lemma trim_Nil: "trim [] = []"
  by (simp add: trim_def)

lemma append_condition: "(truthy p \<and> truthy (trim p)) \<longleftrightarrow> trim p \<noteq> []"
  by (cases p) (simp_all add: truthy_def trim_Nil)

lemma textPart_attachment:
  "truthy_opt f \<Longrightarrow>
   textPart p f = defaultFilePrompt @ (if trim p = [] then [] else USER_REQUEST_CONTEXT @ p)"
  by (simp add: textPart_def append_condition)




lemma bringToLife_keeps_content:
  assumes "gc (generate_request p f m) = Inr (Some s)" and "c \<in> set s" and "\<not> fence_unit c"
  shows "\<exists>t. bringToLife gc p f m = Inr t \<and> c \<in> set t"
proof -
  from assms(2) have "s \<noteq> []" by auto
  with assms(1) have "bringToLife gc p f m = Inr (cleanup s)"
    by (simp add: bringToLife_def or_default_truthy)
  with assms(2,3) show ?thesis
    by (simp add: cleanup_keeps)
qed

lemma refineApp_keeps_content:
  assumes "gc (refine_request h i) = Inr (Some s)" and "c \<in> set s" and "\<not> fence_unit c"
  shows "\<exists>t. refineApp gc h i = Inr t \<and> c \<in> set t"
proof -
  from assms(2) have "s \<noteq> []" by auto
  with assms(1) have "refineApp gc h i = Inr (cleanup s)"
    by (simp add: refineApp_def or_default_truthy)
  with assms(2,3) show ?thesis
    by (simp add: cleanup_keeps)
qed

lemma bringToLife_placeholder:
  "gc (generate_request p f m) = Inr v \<Longrightarrow> \<not> truthy_opt v \<Longrightarrow>
   bringToLife gc p f m = Inr FAILED_PLACEHOLDER"
  by (simp add: bringToLife_def or_default_falsy cleanup_clean FAILED_PLACEHOLDER_clean)

lemma refineApp_fallback:
  "gc (refine_request h i) = Inr v \<Longrightarrow> \<not> truthy_opt v \<Longrightarrow> clean h \<Longrightarrow>
   refineApp gc h i = Inr h"
  by (simp add: refineApp_def or_default_falsy cleanup_clean)

lemma refineApp_rethrows:
  "gc (refine_request h i) = Inl e \<Longrightarrow> refineApp gc h i = Inl e"
  by (simp add: refineApp_def)



lemma bringToLife_sends:
  "bringToLife gc p f mt =
     (case gc (generate_request p f mt) of
        Inl e \<Rightarrow> Inl e
      | Inr v \<Rightarrow> Inr (cleanup (or_default v FAILED_PLACEHOLDER)))"
  by (simp add: bringToLife_def)


section \<open>Facts about the export\<close>

lemma toLowerCase_replace:
  "toLowerCase (replace_non_alnum s) =
     map (\<lambda>u. if is_alnum u then (if 0x41 \<le> u \<and> u \<le> 0x5A then u + 0x20 else u) else 0x5F) s"
  by (simp add: toLowerCase_def replace_non_alnum_def)

lemma coffee_shop: "toLowerCase (replace_non_alnum (js ''Coffee Shop!!'')) = js ''coffee_shop__''"
  by (simp add: toLowerCase_def replace_non_alnum_def is_alnum_def js_def)

lemma gap_two: "replicate 2 (0x20::code_unit) = [0x20, 0x20]"
  by (simp add: numeral_2_eq_2)


lemma quote_unit_plain:
  assumes "plain c"
  shows "quote_unit c = [c]"
proof -
  from assms have ge: "0x20 \<le> c" and nq: "c \<noteq> 0x22" and nb: "c \<noteq> 0x5C"
    and ns: "\<not> is_leading_surrogate c" "\<not> is_trailing_surrogate c"
    by (simp_all add: plain_def)
  from ge have nc: "c \<noteq> 0x08" "c \<noteq> 0x09" "c \<noteq> 0x0A" "c \<noteq> 0x0C" "c \<noteq> 0x0D"
    by auto
  from ge have nl: "\<not> c < 0x20"
    by simp
  from nc nq nb nl ns show ?thesis
    by (simp add: quote_unit_def)
qed

lemma quote_units_plain: "\<forall>c\<in>set s. plain c \<Longrightarrow> quote_units s = s"
proof (induction s rule: quote_units.induct)
  case 1
  then show ?case by simp
next
  case (2 c)
  then show ?case by (simp add: quote_unit_plain)
next
  case (3 c d cs)
  from "3.prems" have pc: "quote_unit c = [c]" and nl: "\<not> is_leading_surrogate c"
    by (simp_all add: quote_unit_plain plain_def)
  from "3.prems" have "\<forall>x\<in>set (d # cs). plain x"
    by simp
  with nl "3.IH"(2) have "quote_units (d # cs) = d # cs"
    by simp
  with pc nl show ?case
    by simp
qed

lemma QuoteJSONString_plain:
  "\<forall>c\<in>set s. plain c \<Longrightarrow> QuoteJSONString s = [DQUOTE] @ s @ [DQUOTE]"
  by (simp add: QuoteJSONString_def quote_units_plain)

lemma plain_keys:
  "\<forall>c\<in>set (js ''name''). plain c"
  "\<forall>c\<in>set (js ''html''). plain c"
  "\<forall>c\<in>set (js ''originalImage''). plain c"
  by (simp_all add: plain_def js_def is_leading_surrogate_def is_trailing_surrogate_def)

lemma quote_keys:
  "QuoteJSONString (js ''name'') = [DQUOTE] @ js ''name'' @ [DQUOTE]"
  "QuoteJSONString (js ''html'') = [DQUOTE] @ js ''html'' @ [DQUOTE]"
  "QuoteJSONString (js ''originalImage'') = [DQUOTE] @ js ''originalImage'' @ [DQUOTE]"
  by (rule QuoteJSONString_plain, rule plain_keys)+

lemma JSON_stringify_layout:
  "JSON_stringify c 2 =
     js ''{'' @ [LF] @
     js ''  \"name\": '' @ QuoteJSONString (name c) @ js '','' @ [LF] @
     js ''  \"html\": '' @ QuoteJSONString (html c) @
     (case originalImage c of
        None \<Rightarrow> []
      | Some i \<Rightarrow> js '','' @ [LF] @ js ''  \"originalImage\": '' @ QuoteJSONString i) @
     [LF] @ js ''}''"
proof -
  have "JSON_stringify c 2 =
     js ''{'' @ [LF] @ [0x20, 0x20] @
     ([DQUOTE] @ js ''name'' @ [DQUOTE]) @ js '':'' @ js '' '' @ QuoteJSONString (name c) @
     js '','' @ [LF] @ [0x20, 0x20] @
     ([DQUOTE] @ js ''html'' @ [DQUOTE]) @ js '':'' @ js '' '' @ QuoteJSONString (html c) @
     (case originalImage c of
        None \<Rightarrow> []
      | Some i \<Rightarrow> js '','' @ [LF] @ [0x20, 0x20] @
          ([DQUOTE] @ js ''originalImage'' @ [DQUOTE]) @ js '':'' @ js '' '' @ QuoteJSONString i) @
     [LF] @ js ''}''"
    by (cases "originalImage c")
      (simp_all add: JSON_stringify_def Let_def creation_properties_def member_def gap_two
        quote_keys)
  also have "\<dots> =
     js ''{'' @ [LF] @
     js ''  \"name\": '' @ QuoteJSONString (name c) @ js '','' @ [LF] @
     js ''  \"html\": '' @ QuoteJSONString (html c) @
     (case originalImage c of
        None \<Rightarrow> []
      | Some i \<Rightarrow> js '','' @ [LF] @ js ''  \"originalImage\": '' @ QuoteJSONString i) @
     [LF] @ js ''}''"
    by (cases "originalImage c") (simp_all add: js_def DQUOTE_def)
  finally show ?thesis .
qed


lemma handleExport_Some:
  "handleExport (Some c) =
     Some \<lparr>blob = JSON_stringify c 2, blob_type = js ''application/json'',
           file_name = toLowerCase (replace_non_alnum (name c)) @ js ''_artifact.json''\<rparr>"
  by (simp add: handleExport_def)


section \<open>Facts about the preview\<close>

lemma report_nonempty: "report gc c \<noteq> []"
proof -
  obtain s where "analyzeCode gc (html c) = Inr s" and "s \<noteq> []"
    using analyzeCode_returns by blast
  then show ?thesis
    by (simp add: report_def)
qed

lemma creation_changed_fresh:
  "in_flight st = [] \<Longrightarrow> fresh c (calls st) (creation_changed (Some c) st)"
  by (simp add: fresh_def creation_changed_def)

lemma fresh_toggle: "fresh c sent st \<Longrightarrow> awaiting c sent (handleToggleAnalysis st)"
  by (simp add: fresh_def awaiting_def handleToggleAnalysis_def truthy_opt_def)

lemma fresh_settled: "fresh c sent st \<Longrightarrow> fresh c sent (analysis_settled gc st)"
  by (simp add: fresh_def analysis_settled_def)

lemma awaiting_toggle: "awaiting c sent st \<Longrightarrow> awaiting c sent (handleToggleAnalysis st)"
  by (simp add: awaiting_def handleToggleAnalysis_def)

lemma awaiting_settled:
  assumes "awaiting c sent st"
  shows "memoized c (report gc c) sent (analysis_settled gc st)"
proof -
  from assms have "analysisResult (analysis_settled gc st) = Some (report gc c)"
    and "\<not> isAnalyzing (analysis_settled gc st)"
    and "in_flight (analysis_settled gc st) = []"
    and "creation (analysis_settled gc st) = Some c"
    and "calls (analysis_settled gc st) = sent @ [analyze_request (html c)]"
    by (simp_all add: awaiting_def analysis_settled_def report_def split: sum.splits)
  then show ?thesis
    by (simp add: memoized_def report_nonempty)
qed

lemma memoized_step: "memoized c r sent st \<Longrightarrow> memoized c r sent (step gc ev st)"
  by (cases ev)
    (simp_all add: memoized_def handleToggleAnalysis_def analysis_settled_def truthy_opt_def
      truthy_def)

lemma requested_step:
  assumes "awaiting c sent st \<or> memoized c (report gc c) sent st"
  shows "awaiting c sent (step gc ev st) \<or> memoized c (report gc c) sent (step gc ev st)"
  using assms
proof
  assume "awaiting c sent st"
  then show ?thesis
    by (cases ev) (simp_all add: awaiting_toggle awaiting_settled)
next
  assume "memoized c (report gc c) sent st"
  then show ?thesis
    by (simp add: memoized_step)
qed

lemma requested_run:
  "awaiting c sent st \<or> memoized c (report gc c) sent st \<Longrightarrow>
   awaiting c sent (run gc evs st) \<or> memoized c (report gc c) sent (run gc evs st)"
proof (induction evs arbitrary: st)
  case Nil
  then show ?case by simp
next
  case (Cons ev evs)
  from Cons.prems
  have "awaiting c sent (step gc ev st) \<or> memoized c (report gc c) sent (step gc ev st)"
    by (rule requested_step)
  then show ?case
    using Cons.IH by simp
qed

lemma fresh_run:
  "fresh c sent st \<Longrightarrow>
   (Toggle \<in> set evs \<longrightarrow>
      awaiting c sent (run gc evs st) \<or> memoized c (report gc c) sent (run gc evs st)) \<and>
   (Toggle \<notin> set evs \<longrightarrow> fresh c sent (run gc evs st))"
proof (induction evs arbitrary: st)
  case Nil
  then show ?case by simp
next
  case (Cons ev evs)
  show ?case
  proof (cases ev)
    case Toggle
    from Cons.prems have "awaiting c sent (step gc Toggle st)"
      by (simp add: fresh_toggle)
    then have "awaiting c sent (run gc evs (step gc Toggle st)) \<or>
        memoized c (report gc c) sent (run gc evs (step gc Toggle st))"
      using requested_run by blast
    with Toggle show ?thesis by simp
  next
    case Settled
    from Cons.prems have "fresh c sent (step gc Settled st)"
      by (simp add: fresh_settled)
    from Cons.IH [OF this] Settled show ?thesis by simp
  qed
qed

lemma calls_after_run:
  assumes "fresh c sent st"
  shows "calls (run gc evs st) =
    sent @ (if Toggle \<in> set evs then [analyze_request (html c)] else [])"
  using fresh_run [OF assms, of evs gc]
  by (auto simp: fresh_def awaiting_def memoized_def split: if_splits)

lemma result_after_run:
  assumes "fresh c sent st" and "Toggle \<in> set evs" and "in_flight (run gc evs st) = []"
  shows "analysisResult (run gc evs st) = Some (report gc c)"
  using fresh_run [OF assms(1), of evs gc] assms(2,3)
  by (auto simp: awaiting_def memoized_def)


section \<open>Cleanup: claims\<close>

text \<open>
  C9. Cleanup is idempotent on text that is already clean, that is, on text that carries
  neither a leading nor a trailing fence marker: cleaning it twice gives the same result
  as cleaning it once (and that result is the text itself).
\<close>

theorem cleanup_idempotent_on_clean:
  "clean s \<Longrightarrow> cleanup (cleanup s) = cleanup s \<and> cleanup s = s"
  by (simp add: cleanup_clean)

theorem cleanup_idempotent_on_clean_witness:
  "clean (js ''<!DOCTYPE html><p> hi </p>'') \<and>
   cleanup (cleanup (js ''<!DOCTYPE html><p> hi </p>'')) = cleanup (js ''<!DOCTYPE html><p> hi </p>'') \<and>
   cleanup (js ''<!DOCTYPE html><p> hi </p>'') = js ''<!DOCTYPE html><p> hi </p>''"
proof -
  have c: "clean (js ''<!DOCTYPE html><p> hi </p>'')"
    by (simp add: clean_def startsWith_def endsWith_def FENCE_units js_def)
  from cleanup_idempotent_on_clean [OF c] c show ?thesis
    by simp
qed

text \<open>
  C3 (as amended). The cleanup recognises the language tag \<open>html\<close> only, and \<open>\s*\<close> after
  the opener consumes the leading whitespace of what follows. For every inner text \<open>t\<close>,
  cleaning \<open>```html\<close> followed by \<open>t\<close> and a closing fence yields \<open>t\<close> without its
  leading whitespace, provided the rest does not itself begin with a fence; so \<open>t\<close> comes
  back verbatim, internal and trailing whitespace included, when it does not begin with
  whitespace or with a fence. Text that neither begins nor ends with a fence is left
  untouched.
\<close>

theorem cleanup_fenced_html:
  "(\<not> startsWith FENCE (dropWhile isspace t) \<longrightarrow>
      cleanup (FENCE_HTML @ t @ FENCE) = dropWhile isspace t) \<and>
   ((t = [] \<or> \<not> isspace (hd t)) \<and> \<not> startsWith FENCE t \<longrightarrow>
      cleanup (FENCE_HTML @ t @ FENCE) = t) \<and>
   (clean s \<longrightarrow> cleanup s = s)"
proof -
  have general: "cleanup (FENCE_HTML @ t @ FENCE) = dropWhile isspace t"
    if "\<not> startsWith FENCE (dropWhile isspace t)"
    using that by (simp add: cleanup_def replace_fence_html_wrapped strip_after_html)
  have verbatim: "dropWhile isspace t = t" if "t = [] \<or> \<not> isspace (hd t)"
    using that by (cases t) simp_all
  show ?thesis
    using general verbatim cleanup_clean by metis
qed

theorem cleanup_fenced_html_witness:
  "\<not> startsWith FENCE (dropWhile isspace (js ''  <p> a  b </p> '')) \<and>
   cleanup (FENCE_HTML @ js ''  <p> a  b </p> '' @ FENCE) = js ''<p> a  b </p> '' \<and>
   (js ''<p> a  b </p> '' = [] \<or> \<not> isspace (hd (js ''<p> a  b </p> ''))) \<and>
   \<not> startsWith FENCE (js ''<p> a  b </p> '') \<and>
   cleanup (FENCE_HTML @ js ''<p> a  b </p> '' @ FENCE) = js ''<p> a  b </p> '' \<and>
   clean (js ''<p>```</p>'') \<and> cleanup (js ''<p>```</p>'') = js ''<p>```</p>''"
proof -
  have d: "dropWhile isspace (js ''  <p> a  b </p> '') = js ''<p> a  b </p> ''"
    by (simp add: js_def isspace_def)
  have h1: "\<not> startsWith FENCE (dropWhile isspace (js ''  <p> a  b </p> ''))"
    unfolding d by (simp add: startsWith_def FENCE_units js_def)
  have h2: "(js ''<p> a  b </p> '' = [] \<or> \<not> isspace (hd (js ''<p> a  b </p> ''))) \<and>
      \<not> startsWith FENCE (js ''<p> a  b </p> '')"
    by (simp add: startsWith_def FENCE_units js_def isspace_def)
  have h3: "clean (js ''<p>```</p>'')"
    by (simp add: clean_def startsWith_def endsWith_def FENCE_units js_def)
  from cleanup_fenced_html [of "js ''  <p> a  b </p> ''" "js ''<p>```</p>''"] h1 h3
  have a: "cleanup (FENCE_HTML @ js ''  <p> a  b </p> '' @ FENCE) = js ''<p> a  b </p> ''"
    and c: "cleanup (js ''<p>```</p>'') = js ''<p>```</p>''"
    by (simp_all add: d)
  from cleanup_fenced_html [of "js ''<p> a  b </p> ''" "[]"] h2
  have b: "cleanup (FENCE_HTML @ js ''<p> a  b </p> '' @ FENCE) = js ''<p> a  b </p> ''"
    by blast
  from a b c h1 h2 h3 show ?thesis
    by blast
qed

text \<open>
  C3 as stated fails: leading whitespace of the inner text is lost, and a language tag
  other than \<open>html\<close> stays in the result.
\<close>

theorem cleanup_fenced_counterexample:
  "cleanup (FENCE @ js ''html'' @ js '' <p>'' @ FENCE) = js ''<p>'' \<and>
   cleanup (FENCE @ js ''html'' @ js '' <p>'' @ FENCE) \<noteq> js '' <p>'' \<and>
   cleanup (FENCE @ js ''js'' @ js ''x=1'' @ FENCE) = js ''jsx=1'' \<and>
   cleanup (FENCE @ js ''js'' @ js ''x=1'' @ FENCE) \<noteq> js ''x=1''"
  by (simp add: cleanup_def replace_fence_html_def replace_fence_open_def
      replace_fence_close_def startsWith_def endsWith_def FENCE_def FENCE_HTML_def js_def
      isspace_def)


section \<open>The gateway: claims\<close>

text \<open>
  C8. \<open>analyzeCode\<close> never raises and always hands back a non-empty string: when the
  remote call fails the result is the literal failure message, when the response text is
  empty or missing it is the fixed "No analysis generated." string, and otherwise it is
  the response text itself.
\<close>

theorem analyzeCode_never_raises:
  "(\<exists>s. analyzeCode gc code = Inr s \<and> s \<noteq> []) \<and>
   (gc (analyze_request code) = Inl e \<longrightarrow> analyzeCode gc code = Inr ANALYSIS_FAILED) \<and>
   (gc (analyze_request code) = Inr v \<and> \<not> truthy_opt v \<longrightarrow> analyzeCode gc code = Inr NO_ANALYSIS) \<and>
   (gc (analyze_request code) = Inr (Some s) \<and> s \<noteq> [] \<longrightarrow> analyzeCode gc code = Inr s)"
  by (auto simp: analyzeCode_def or_default_nonempty or_default_falsy or_default_truthy
      NO_ANALYSIS_nonempty ANALYSIS_FAILED_nonempty split: sum.splits)

theorem analyzeCode_never_raises_witness:
  "analyzeCode (\<lambda>r. Inl (404::nat)) (js ''<p>hi</p>'') = Inr ANALYSIS_FAILED \<and>
   analyzeCode (\<lambda>r. Inr None :: nat + jsstring option) (js ''<p>hi</p>'') = Inr NO_ANALYSIS \<and>
   analyzeCode (\<lambda>r. Inr (Some (js ''Looks fine.'')) :: nat + jsstring option) (js ''<p>hi</p>'')
     = Inr (js ''Looks fine.'')"
proof -
  have a: "analyzeCode (\<lambda>r. Inl (404::nat)) (js ''<p>hi</p>'') = Inr ANALYSIS_FAILED"
    using analyzeCode_never_raises
      [where gc = "\<lambda>r. Inl (404::nat)" and code = "js ''<p>hi</p>''" and e = 404]
    by simp
  have "\<not> truthy_opt None"
    by (simp add: truthy_opt_def)
  then have b: "analyzeCode (\<lambda>r. Inr None :: nat + jsstring option) (js ''<p>hi</p>'')
      = Inr NO_ANALYSIS"
    using analyzeCode_never_raises
      [where gc = "\<lambda>r. Inr None :: nat + jsstring option" and code = "js ''<p>hi</p>''"
        and v = None]
    by simp
  have "js ''Looks fine.'' \<noteq> []"
    by (simp add: js_def)
  then have c: "analyzeCode (\<lambda>r. Inr (Some (js ''Looks fine.'')) :: nat + jsstring option)
      (js ''<p>hi</p>'') = Inr (js ''Looks fine.'')"
    using analyzeCode_never_raises
      [where gc = "\<lambda>r. Inr (Some (js ''Looks fine.'')) :: nat + jsstring option"
        and code = "js ''<p>hi</p>''" and s = "js ''Looks fine.''"]
    by simp
  from a b c show ?thesis
    by simp
qed

text \<open>
  C2. \<open>bringToLife\<close> is to return a non-empty string for every input, the placeholder
  standing in for an empty result. The code picks the placeholder before the cleanup and
  does not look at what the cleanup leaves: for a response that holds an opening fence, a
  line break and a closing fence it returns the empty string.
\<close>

theorem bringToLife_returns_empty:
  "bringToLife (\<lambda>r. Inr (Some (js ''```html'' @ [LF] @ js ''```'')) :: nat + jsstring option)
     (js ''a todo list'') None None = Inr []"
  by (simp add: bringToLife_def or_default_def truthy_def cleanup_def replace_fence_html_def
      replace_fence_open_def replace_fence_close_def startsWith_def endsWith_def FENCE_def
      FENCE_HTML_def js_def isspace_def LF_def)

text \<open>
  C1. \<open>refineApp\<close> is to return a non-empty string for every input, and the current markup
  unchanged when the response is empty. The code falls back to the current markup before
  the cleanup and does not look at what the cleanup leaves: for a response that holds an
  opening fence, a line break and a closing fence it returns the empty string, and on an
  empty response a current markup that ends with a fence comes back without it.
\<close>

theorem refineApp_returns_empty:
  "refineApp (\<lambda>r. Inr (Some (js ''```html'' @ [LF] @ js ''```'')) :: nat + jsstring option)
     (js ''<p>ok</p>'') (js ''make it blue'') = Inr [] \<and>
   refineApp (\<lambda>r. Inr None :: nat + jsstring option) (js ''<p>ok</p>```'') (js ''make it blue'')
     = Inr (js ''<p>ok</p>'') \<and>
   js ''<p>ok</p>'' \<noteq> js ''<p>ok</p>```''"
  by (simp add: refineApp_def or_default_def truthy_def cleanup_def replace_fence_html_def
      replace_fence_open_def replace_fence_close_def startsWith_def endsWith_def FENCE_def
      FENCE_HTML_def js_def isspace_def LF_def)



text \<open>
  C10. \<open>bringToLife\<close> hands the remote model the request built from its arguments, and that
  request holds an attachment part exactly when both the base64 payload and the media type
  are given (and non-empty): text part and attachment in that case. With a payload but no
  media type the request is the text part alone, and that text still begins with the
  default image-analysis instruction.
\<close>

theorem generate_attachment_part:
  "bringToLife gc p f mt =
     (case gc (generate_request p f mt) of
        Inl e \<Rightarrow> Inl e
      | Inr v \<Rightarrow> Inr (cleanup (or_default v FAILED_PLACEHOLDER))) \<and>
   ((\<exists>d m. InlineData d m \<in> set (parts (generate_request p f mt))) \<longleftrightarrow>
      truthy_opt f \<and> truthy_opt mt) \<and>
   (f = Some d \<and> mt = Some m \<and> d \<noteq> [] \<and> m \<noteq> [] \<longrightarrow>
      parts (generate_request p f mt) = [Text (textPart p f), InlineData d m]) \<and>
   (truthy_opt f \<and> \<not> truthy_opt mt \<longrightarrow>
      parts (generate_request p f mt) = [Text (textPart p f)] \<and>
      startsWith defaultFilePrompt (textPart p f))"
proof -
  have a: "(\<exists>d m. InlineData d m \<in> set (parts (generate_request p f mt))) \<longleftrightarrow>
      truthy_opt f \<and> truthy_opt mt"
    by (auto simp: generate_request_def generate_parts_def truthy_opt_def truthy_def
        split: option.splits)
  have a': "parts (generate_request p f mt) = [Text (textPart p f), InlineData d m]"
    if "f = Some d" and "mt = Some m" and "d \<noteq> []" and "m \<noteq> []"
    using that
    by (simp add: generate_request_def generate_parts_def truthy_def)
  have b: "parts (generate_request p f mt) = [Text (textPart p f)]"
    if "truthy_opt f" and "\<not> truthy_opt mt"
    using that
    by (auto simp: generate_request_def generate_parts_def truthy_opt_def truthy_def
        split: option.splits)
  have c: "startsWith defaultFilePrompt (textPart p f)" if "truthy_opt f"
    using that by (simp add: textPart_attachment startsWith_def)
  from bringToLife_sends a a' b c show ?thesis
    by blast
qed

theorem generate_attachment_part_witness:
  "parts (generate_request (js ''make it a game'') (Some (js ''iVBORw0KGgo'')) None) =
     [Text (textPart (js ''make it a game'') (Some (js ''iVBORw0KGgo'')))] \<and>
   startsWith defaultFilePrompt (textPart (js ''make it a game'') (Some (js ''iVBORw0KGgo''))) \<and>
   parts (generate_request (js ''make it a game'') (Some (js ''iVBORw0KGgo''))
      (Some (js ''image/png''))) =
     [Text (textPart (js ''make it a game'') (Some (js ''iVBORw0KGgo''))),
      InlineData (js ''iVBORw0KGgo'') (js ''image/png'')] \<and>
   bringToLife count_parts (js ''make it a game'') (Some (js ''iVBORw0KGgo'')) None =
     Inr (js ''text only'') \<and>
   bringToLife count_parts (js ''make it a game'') (Some (js ''iVBORw0KGgo''))
     (Some (js ''image/png'')) = Inr (js ''text and attachment'')"
proof -
  let ?p = "js ''make it a game''"
  let ?f = "Some (js ''iVBORw0KGgo'')"
  let ?m = "Some (js ''image/png'')"
  have t: "truthy_opt ?f" "truthy_opt ?m" and n: "\<not> truthy_opt None"
    by (simp_all add: truthy_opt_def truthy_def js_def)
  have cl: "cleanup (js ''text only'') = js ''text only''"
      "cleanup (js ''text and attachment'') = js ''text and attachment''"
    by (rule cleanup_clean,
        simp add: clean_def startsWith_def endsWith_def FENCE_units js_def)+
  have ne: "js ''text only'' \<noteq> []" "js ''text and attachment'' \<noteq> []"
    by (simp_all add: js_def)
  note one = generate_attachment_part [where gc = count_parts and p = ?p and f = ?f and mt = None]
  note two = generate_attachment_part [where gc = count_parts and p = ?p and f = ?f and mt = ?m
      and d = "js ''iVBORw0KGgo''" and m = "js ''image/png''"]
  from one t n have a: "parts (generate_request ?p ?f None) = [Text (textPart ?p ?f)]"
    and a': "startsWith defaultFilePrompt (textPart ?p ?f)"
    by blast+
  have ne': "js ''iVBORw0KGgo'' \<noteq> []" "js ''image/png'' \<noteq> []"
    by (simp_all add: js_def)
  with two have b: "parts (generate_request ?p ?f ?m) =
      [Text (textPart ?p ?f), InlineData (js ''iVBORw0KGgo'') (js ''image/png'')]"
    by blast
  from one have "bringToLife count_parts ?p ?f None =
     (case count_parts (generate_request ?p ?f None) of
        Inl e \<Rightarrow> Inl e
      | Inr v \<Rightarrow> Inr (cleanup (or_default v FAILED_PLACEHOLDER)))"
    by blast
  then have c: "bringToLife count_parts ?p ?f None = Inr (js ''text only'')"
    by (simp add: count_parts_def a or_default_truthy ne cl)
  from two have "bringToLife count_parts ?p ?f ?m =
     (case count_parts (generate_request ?p ?f ?m) of
        Inl e \<Rightarrow> Inl e
      | Inr v \<Rightarrow> Inr (cleanup (or_default v FAILED_PLACEHOLDER)))"
    by blast
  then have d: "bringToLife count_parts ?p ?f ?m = Inr (js ''text and attachment'')"
    by (simp add: count_parts_def b or_default_truthy ne cl)
  from a a' b c d show ?thesis
    by (intro conjI)
qed

text \<open>
  C6. The request of \<open>refineApp\<close> holds three text parts: the fixed preamble, the current
  markup verbatim, and the user's instruction between a fixed heading and a fixed closing
  sentence. It carries the refinement system instruction, and it is the request whose
  answer \<open>refineApp\<close> post-processes.
\<close>

theorem refine_request_parts:
  "parts (refine_request h i) =
     [Text CURRENT_CODE_PREAMBLE, Text h,
      Text ([LF, LF] @ js ''USER INSTRUCTION: '' @ i @ [LF, LF] @
            js ''Return the full updated HTML file.'')] \<and>
   length (parts (refine_request h i)) = 3 \<and>
   systemInstruction (refine_request h i) = REFINE_SYSTEM_INSTRUCTION \<and>
   refineApp gc h i =
     (case gc (refine_request h i) of
        Inl e \<Rightarrow> Inl e
      | Inr v \<Rightarrow> Inr (cleanup (or_default v h)))"
  by (simp add: refine_request_def wrap_instruction_def refineApp_def)


section \<open>The export: claims\<close>

text \<open>
  C7 (as amended). Without a Creation nothing is exported. Otherwise the download is JSON
  text indented by two spaces that holds the key \<open>name\<close> with the quoted name, the key \<open>html\<close>
  with the quoted markup and, only when the Creation has an original image, the key
  \<open>originalImage\<close> with the quoted image, in that order and nothing else; a string without
  control characters, quotes, backslashes and surrogates is quoted by putting it between
  double quotes. The file name is the name of the Creation with every code unit other than
  an ASCII letter or digit replaced by an underscore and the letters in lower case,
  followed by \<open>_artifact.json\<close>; the name "Coffee Shop!!" gives
  \<open>coffee_shop___artifact.json\<close>.
\<close>

theorem handleExport_download:
  "handleExport None = None \<and>
   handleExport (Some c) =
     Some \<lparr>blob =
             js ''{'' @ [LF] @
             js ''  \"name\": '' @ QuoteJSONString (name c) @ js '','' @ [LF] @
             js ''  \"html\": '' @ QuoteJSONString (html c) @
             (case originalImage c of
                None \<Rightarrow> []
              | Some i \<Rightarrow> js '','' @ [LF] @ js ''  \"originalImage\": '' @ QuoteJSONString i) @
             [LF] @ js ''}'',
           blob_type = js ''application/json'',
           file_name =
             map (\<lambda>u. if is_alnum u then (if 0x41 \<le> u \<and> u \<le> 0x5A then u + 0x20 else u) else 0x5F)
               (name c) @ js ''_artifact.json''\<rparr> \<and>
   ((\<forall>u\<in>set s. plain u) \<longrightarrow> QuoteJSONString s = [DQUOTE] @ s @ [DQUOTE]) \<and>
   (name c = js ''Coffee Shop!!'' \<longrightarrow>
      map_option file_name (handleExport (Some c)) = Some (js ''coffee_shop___artifact.json''))"
proof -
  have a: "handleExport None = None"
    by (simp add: handleExport_def)
  have b: "handleExport (Some c) =
     Some \<lparr>blob =
             js ''{'' @ [LF] @
             js ''  \"name\": '' @ QuoteJSONString (name c) @ js '','' @ [LF] @
             js ''  \"html\": '' @ QuoteJSONString (html c) @
             (case originalImage c of
                None \<Rightarrow> []
              | Some i \<Rightarrow> js '','' @ [LF] @ js ''  \"originalImage\": '' @ QuoteJSONString i) @
             [LF] @ js ''}'',
           blob_type = js ''application/json'',
           file_name =
             map (\<lambda>u. if is_alnum u then (if 0x41 \<le> u \<and> u \<le> 0x5A then u + 0x20 else u) else 0x5F)
               (name c) @ js ''_artifact.json''\<rparr>"
    by (simp only: handleExport_Some JSON_stringify_layout toLowerCase_replace)
  have q: "(\<forall>u\<in>set s. plain u) \<longrightarrow> QuoteJSONString s = [DQUOTE] @ s @ [DQUOTE]"
    using QuoteJSONString_plain by blast
  have "js ''coffee_shop__'' @ js ''_artifact.json'' = js ''coffee_shop___artifact.json''"
    by (simp add: js_def)
  then have f: "name c = js ''Coffee Shop!!'' \<longrightarrow>
      map_option file_name (handleExport (Some c)) = Some (js ''coffee_shop___artifact.json'')"
    by (simp add: handleExport_Some coffee_shop)
  from a b q f show ?thesis
    by (intro conjI)
qed

theorem handleExport_download_witness:
  "list_all plain (js ''Coffee Shop!!'') \<and>
   list_all plain (js ''<p>hi</p>'') \<and>
   list_all plain (js ''data:image/png;base64,AAAA'') \<and>
   name \<lparr>name = js ''Coffee Shop!!'', html = js ''<p>hi</p>'',
         originalImage = Some (js ''data:image/png;base64,AAAA'')\<rparr> = js ''Coffee Shop!!'' \<and>
   handleExport (Some \<lparr>name = js ''Coffee Shop!!'', html = js ''<p>hi</p>'',
        originalImage = Some (js ''data:image/png;base64,AAAA'')\<rparr>) =
     Some \<lparr>blob =
             js ''{'' @ [LF] @
             js ''  \"name\": \"Coffee Shop!!\",'' @ [LF] @
             js ''  \"html\": \"<p>hi</p>\",'' @ [LF] @
             js ''  \"originalImage\": \"data:image/png;base64,AAAA\"'' @ [LF] @
             js ''}'',
           blob_type = js ''application/json'',
           file_name = js ''coffee_shop___artifact.json''\<rparr>"
proof -
  let ?c = "\<lparr>name = js ''Coffee Shop!!'', html = js ''<p>hi</p>'',
        originalImage = Some (js ''data:image/png;base64,AAAA'')\<rparr>"
  have p1: "\<forall>u\<in>set (js ''Coffee Shop!!''). plain u"
    and p2: "\<forall>u\<in>set (js ''<p>hi</p>''). plain u"
    and p3: "\<forall>u\<in>set (js ''data:image/png;base64,AAAA''). plain u"
    by (simp_all add: plain_def js_def is_leading_surrogate_def is_trailing_surrogate_def)
  have h: "name ?c = js ''Coffee Shop!!''"
    by simp
  from handleExport_download [where s = "js ''Coffee Shop!!''"] p1
  have q1: "QuoteJSONString (js ''Coffee Shop!!'') = [DQUOTE] @ js ''Coffee Shop!!'' @ [DQUOTE]"
    by blast
  from handleExport_download [where s = "js ''<p>hi</p>''"] p2
  have q2: "QuoteJSONString (js ''<p>hi</p>'') = [DQUOTE] @ js ''<p>hi</p>'' @ [DQUOTE]"
    by blast
  from handleExport_download [where s = "js ''data:image/png;base64,AAAA''"] p3
  have q3: "QuoteJSONString (js ''data:image/png;base64,AAAA'') =
      [DQUOTE] @ js ''data:image/png;base64,AAAA'' @ [DQUOTE]"
    by blast
  from handleExport_download [where c = ?c] h
  have f: "map_option file_name (handleExport (Some ?c)) = Some (js ''coffee_shop___artifact.json'')"
    by blast
  from handleExport_download [where c = ?c]
  have "handleExport (Some ?c) =
     Some \<lparr>blob =
             js ''{'' @ [LF] @
             js ''  \"name\": '' @ QuoteJSONString (name ?c) @ js '','' @ [LF] @
             js ''  \"html\": '' @ QuoteJSONString (html ?c) @
             (case originalImage ?c of
                None \<Rightarrow> []
              | Some i \<Rightarrow> js '','' @ [LF] @ js ''  \"originalImage\": '' @ QuoteJSONString i) @
             [LF] @ js ''}'',
           blob_type = js ''application/json'',
           file_name =
             map (\<lambda>u. if is_alnum u then (if 0x41 \<le> u \<and> u \<le> 0x5A then u + 0x20 else u) else 0x5F)
               (name ?c) @ js ''_artifact.json''\<rparr>"
    by blast
  with f have "handleExport (Some ?c) =
     Some \<lparr>blob =
             js ''{'' @ [LF] @
             js ''  \"name\": '' @ QuoteJSONString (js ''Coffee Shop!!'') @ js '','' @ [LF] @
             js ''  \"html\": '' @ QuoteJSONString (js ''<p>hi</p>'') @
             js '','' @ [LF] @ js ''  \"originalImage\": '' @
             QuoteJSONString (js ''data:image/png;base64,AAAA'') @
             [LF] @ js ''}'',
           blob_type = js ''application/json'',
           file_name = js ''coffee_shop___artifact.json''\<rparr>"
    by auto
  then have "handleExport (Some ?c) =
     Some \<lparr>blob =
             js ''{'' @ [LF] @
             js ''  \"name\": \"Coffee Shop!!\",'' @ [LF] @
             js ''  \"html\": \"<p>hi</p>\",'' @ [LF] @
             js ''  \"originalImage\": \"data:image/png;base64,AAAA\"'' @ [LF] @
             js ''}'',
           blob_type = js ''application/json'',
           file_name = js ''coffee_shop___artifact.json''\<rparr>"
    unfolding q1 q2 q3 by (simp add: js_def DQUOTE_def)
  moreover from p1 p2 p3 have "list_all plain (js ''Coffee Shop!!'')"
    and "list_all plain (js ''<p>hi</p>'')"
    and "list_all plain (js ''data:image/png;base64,AAAA'')"
    by (simp_all only: list_all_iff)
  ultimately show ?thesis
    using h by (intro conjI)
qed

text \<open>
  C7 as stated fails: a Creation without an original image is serialised with the two keys
  \<open>name\<close> and \<open>html\<close> only.
\<close>

theorem handleExport_keys_counterexample:
  "map fst (creation_properties
      \<lparr>name = js ''Coffee Shop!!'', html = js ''<p>hi</p>'', originalImage = None\<rparr>)
     = [js ''name'', js ''html''] \<and>
   map fst (creation_properties
      \<lparr>name = js ''Coffee Shop!!'', html = js ''<p>hi</p>'', originalImage = None\<rparr>)
     \<noteq> [js ''name'', js ''html'', js ''originalImage''] \<and>
   map_option blob (handleExport (Some
      \<lparr>name = js ''Coffee Shop!!'', html = js ''<p>hi</p>'', originalImage = None\<rparr>))
     = Some (js ''{'' @ [LF] @ js ''  \"name\": \"Coffee Shop!!\",'' @ [LF] @
             js ''  \"html\": \"<p>hi</p>\"'' @ [LF] @ js ''}'')"
  by (simp add: handleExport_def JSON_stringify_def creation_properties_def member_def
      QuoteJSONString_def quote_unit_def is_leading_surrogate_def is_trailing_surrogate_def
      js_def LF_def DQUOTE_def BACKSLASH_def Let_def gap_two)


section \<open>The preview: claims\<close>

text \<open>
  What holds of the analysis when no call is in flight as a Creation is put in place: the
  events that follow (clicks on the analysis button and the settling of a call, in any
  order) send one analysis request for it if there is a click at all, and none otherwise;
  when that call has settled, the report held is the one it produced, the failure message
  included. The effect of a replacement clears the report, and a click right after it
  sends a request for the new Creation.
\<close>

lemma analysis_memoized_when_idle:
  "(in_flight st = [] \<longrightarrow>
      calls (run gc evs (creation_changed (Some c) st)) =
        calls st @ (if Toggle \<in> set evs then [analyze_request (html c)] else []) \<and>
      (Toggle \<in> set evs \<and> in_flight (run gc evs (creation_changed (Some c) st)) = [] \<longrightarrow>
         analysisResult (run gc evs (creation_changed (Some c) st)) = Some (report gc c))) \<and>
   (gc (analyze_request (html c)) = Inl e \<longrightarrow> report gc c = ANALYSIS_FAILED) \<and>
   analysisResult (creation_changed (Some c') st') = None \<and>
   calls (handleToggleAnalysis (creation_changed (Some c') st')) =
     calls st' @ [analyze_request (html c')]"
proof -
  have a: "calls (run gc evs (creation_changed (Some c) st)) =
        calls st @ (if Toggle \<in> set evs then [analyze_request (html c)] else [])"
    if "in_flight st = []"
    using that by (simp add: calls_after_run [OF creation_changed_fresh])
  have b: "analysisResult (run gc evs (creation_changed (Some c) st)) = Some (report gc c)"
    if "in_flight st = []" and "Toggle \<in> set evs"
      and "in_flight (run gc evs (creation_changed (Some c) st)) = []"
    using that result_after_run [OF creation_changed_fresh] by blast
  have f: "report gc c = ANALYSIS_FAILED" if "gc (analyze_request (html c)) = Inl e"
    using that by (simp add: report_def analyzeCode_def)
  have d: "analysisResult (creation_changed (Some c') st') = None \<and>
     calls (handleToggleAnalysis (creation_changed (Some c') st')) =
       calls st' @ [analyze_request (html c')]"
    by (simp add: creation_changed_def handleToggleAnalysis_def truthy_opt_def)
  from a b f d show ?thesis
    by blast
qed

text \<open>
  C4. The report is to be computed once per Creation, and replacing the Creation is to
  clear it so that the next request sends a new call. The second part of
  \<open>handleToggleAnalysis\<close> stores what the awaited call returns whatever Creation is current
  by then: with the Clock's analysis in flight, the Clock is replaced by the Timer, the
  call settles, and the button is clicked. No request is sent for the Timer, and the
  report held for it is the Clock's.
\<close>

theorem analysis_stale_after_replace:
  "creation
     (run answering [Settled, Toggle]
        (creation_changed (Some \<lparr>name = js ''Timer'', html = js ''<p>0:30</p>'', originalImage = None\<rparr>)
           (run answering [Toggle]
              (creation_changed (Some \<lparr>name = js ''Clock'', html = js ''<p>12:00</p>'', originalImage = None\<rparr>)
                 initial_preview))))
     = Some \<lparr>name = js ''Timer'', html = js ''<p>0:30</p>'', originalImage = None\<rparr> \<and>
   calls
     (run answering [Settled, Toggle]
        (creation_changed (Some \<lparr>name = js ''Timer'', html = js ''<p>0:30</p>'', originalImage = None\<rparr>)
           (run answering [Toggle]
              (creation_changed (Some \<lparr>name = js ''Clock'', html = js ''<p>12:00</p>'', originalImage = None\<rparr>)
                 initial_preview))))
     = [analyze_request (js ''<p>12:00</p>'')] \<and>
   analysisResult
     (run answering [Settled, Toggle]
        (creation_changed (Some \<lparr>name = js ''Timer'', html = js ''<p>0:30</p>'', originalImage = None\<rparr>)
           (run answering [Toggle]
              (creation_changed (Some \<lparr>name = js ''Clock'', html = js ''<p>12:00</p>'', originalImage = None\<rparr>)
                 initial_preview))))
     = Some (js ''Review of <p>12:00</p>'')"
  by (simp add: initial_preview_def creation_changed_def handleToggleAnalysis_def
      analysis_settled_def truthy_opt_def truthy_def analyzeCode_def analyze_request_def
      answering_def or_default_def js_def)

end
